theory Spec2Isabelle
  imports Complex_Main "HOL-Library.Option_ord"
begin

section \<open>Values and documents\<close>

text \<open>
  The server of \<^verbatim>\<open>src/server.js\<close> keeps three MongoDB collections through mongoose and a
  socket.io relay. Handlers are modelled as functions from the state before to the state
  after, the events they emit and, for an HTTP route, the response. What the environment
  decides during one run of a handler (the clock, the fresh ObjectId, whether a store
  operation rejects) is the handler's first argument.

  The posts collection and its two routes touch neither games nor messages and are
  left out.
\<close>

type_synonym object_id = nat
type_synonym date = int

subsection \<open>JavaScript numbers\<close>

text \<open>
  A JavaScript number other than \<^verbatim>\<open>NaN\<close>: an infinity, or a finite double given by its
  value. The rationals hold every double, so what is proved for every rational is proved
  for every double. Negative zero is not told from zero: it is falsy, so no route stores
  it, and adding one never gives it.
\<close>

datatype number = NegInf | Fin rat | PosInf

datatype jsnumber = NaN | Val number

text \<open>The comparison \<^verbatim>\<open>x >= y\<close> of two numbers.\<close>

fun ge :: "number \<Rightarrow> number \<Rightarrow> bool" where
  "ge PosInf y = True"
| "ge (Fin a) PosInf = False"
| "ge (Fin a) (Fin b) = (b \<le> a)"
| "ge (Fin a) NegInf = True"
| "ge NegInf NegInf = True"
| "ge NegInf y = False"

text \<open>
  Double addition rounds the exact sum to 53 significant bits, to nearest, ties to the
  even significand. For a positive \<open>a\<close> the exponent \<open>e\<close> of its last significant bit is
  the one with \<open>2^52 \<le> a / 2^e < 2^53\<close>; it is found by halving or doubling \<open>a\<close> into
  that range. The exponent range of a double is not modelled: a sum \<open>x + 1\<close> of a double
  \<open>x\<close> never overflows, and when it falls below the normal range it is exact.
\<close>

definition pow2 :: "int \<Rightarrow> rat" where
  "pow2 e = (if 0 \<le> e then 2 ^ nat e else 1 / 2 ^ nat (- e))"

function halvings :: "rat \<Rightarrow> nat" where
  "halvings a = (if 2 ^ 53 \<le> a then Suc (halvings (a / 2)) else 0)"
  by pat_completeness auto
termination
proof (relation "measure (\<lambda>a. nat \<lfloor>a\<rfloor>)")
  show "wf (measure (\<lambda>a::rat. nat \<lfloor>a\<rfloor>))" by simp
next
  fix a :: rat
  assume "2 ^ 53 \<le> a"
  then have a: "1 \<le> a" by simp
  have "a - 1 < of_int \<lfloor>a\<rfloor>" by linarith
  moreover have "(1::rat) \<le> of_int \<lfloor>a\<rfloor>" using a by simp
  ultimately have "a / 2 < of_int \<lfloor>a\<rfloor>" by linarith
  then have "\<lfloor>a / 2\<rfloor> < \<lfloor>a\<rfloor>" by (simp add: floor_less_iff)
  moreover have "0 < \<lfloor>a\<rfloor>" using a by simp
  ultimately show "(a / 2, a) \<in> measure (\<lambda>a. nat \<lfloor>a\<rfloor>)" by simp
qed

function doublings :: "rat \<Rightarrow> nat" where
  "doublings a = (if 0 < a \<and> a < 2 ^ 52 then Suc (doublings (a * 2)) else 0)"
  by pat_completeness auto
termination
proof (relation "measure (\<lambda>a. nat \<lfloor>2 ^ 52 / a\<rfloor>)")
  show "wf (measure (\<lambda>a::rat. nat \<lfloor>2 ^ 52 / a\<rfloor>))" by simp
next
  fix a :: rat
  assume a: "0 < a \<and> a < 2 ^ 52"
  define x where "x = 2 ^ 52 / a"
  have x: "1 \<le> x" using a by (simp add: x_def)
  have "x - 1 < of_int \<lfloor>x\<rfloor>" by linarith
  moreover have "(1::rat) \<le> of_int \<lfloor>x\<rfloor>" using x by simp
  ultimately have "x / 2 < of_int \<lfloor>x\<rfloor>" by linarith
  then have "\<lfloor>x / 2\<rfloor> < \<lfloor>x\<rfloor>" by (simp add: floor_less_iff)
  moreover have "2 ^ 52 / (a * 2) = x / 2" by (simp add: x_def)
  moreover have "0 < \<lfloor>x\<rfloor>" using x by simp
  ultimately show "(a * 2, a) \<in> measure (\<lambda>a. nat \<lfloor>2 ^ 52 / a\<rfloor>)" by (simp add: x_def)
qed

declare halvings.simps [simp del] doublings.simps [simp del]

definition exponent :: "rat \<Rightarrow> int" where
  "exponent a = int (halvings a) - int (doublings a)"

definition round_half_even :: "rat \<Rightarrow> int" where
  "round_half_even x =
     (let f = \<lfloor>x\<rfloor>; d = x - of_int f in
      if d < 1 / 2 then f else if 1 / 2 < d then f + 1 else if even f then f else f + 1)"

definition round_double :: "rat \<Rightarrow> rat" where
  "round_double q =
     (if q = 0 then 0
      else (let e = exponent \<bar>q\<bar> in of_int (round_half_even (q / pow2 e)) * pow2 e))"

text \<open>\<^verbatim>\<open>x + 1\<close>, as \<^verbatim>\<open>game.players += 1\<close> computes it.\<close>

fun plus_one :: "number \<Rightarrow> number" where
  "plus_one NegInf = NegInf"
| "plus_one (Fin q) = Fin (round_double (q + 1))"
| "plus_one PosInf = PosInf"


subsection \<open>Request fields\<close>

text \<open>
  A field of \<^verbatim>\<open>req.body\<close>. A string, array or object is carried as the number that the
  builtin \<^verbatim>\<open>Number()\<close> converts it to, since that conversion is all the server does with it.
\<close>

datatype jsval = Undefined | Null | JBool bool | JNum number | Other jsnumber

fun Number :: "jsval \<Rightarrow> jsnumber" where
  "Number Undefined = NaN"
| "Number Null = Val (Fin 0)"
| "Number (JBool b) = Val (Fin (if b then 1 else 0))"
| "Number (JNum n) = Val n"
| "Number (Other x) = x"

text \<open>\<^verbatim>\<open>x || 0\<close> on a number: \<^verbatim>\<open>NaN\<close> and \<^verbatim>\<open>0\<close> are falsy.\<close>

fun or_zero :: "jsnumber \<Rightarrow> number" where
  "or_zero NaN = Fin 0"
| "or_zero (Val n) = (if n = Fin 0 then Fin 0 else n)"

text \<open>Truthiness of a string that may be absent: \<^verbatim>\<open>undefined\<close>, \<^verbatim>\<open>null\<close> and \<^verbatim>\<open>""\<close> are falsy.\<close>

fun truthy :: "string option \<Rightarrow> bool" where
  "truthy None = False"
| "truthy (Some s) = (s \<noteq> [])"

subsection \<open>Documents and state\<close>

record game =
  game_id :: object_id
  title :: "string option"
  sport :: "string option"
  time :: "string option"
  location :: "string option"
  players :: number
  maxPlayers :: number
  game_createdAt :: date

record author =
  author_id :: "string option"
  author_name :: "string option"

record message =
  msg_id :: object_id
  room :: "string option"
  msg_author :: "author option"
  msg_text :: "string option"
  msg_createdAt :: "date option"

text \<open>
  The state: the two collections in insertion order, and socket.io's room table
  (room name to the ids of the sockets in it).
\<close>

record state =
  games :: "game list"
  messages :: "message list"
  rooms :: "string \<Rightarrow> string set"

record env =
  now :: date
  new_id :: object_id
  find_fails :: bool
  save_fails :: bool

datatype error = Store_failure | Duplicate_key | Document_not_found

datatype event =
    Emit_update_game game
  | Emit_load_messages string "message list"
  | Emit_chat_message string message
  | Console_log_joined string string
  | Console_log_left string "string option"
  | Console_log_disconnected string
  | Console_error_loading
  | Console_error_saving

datatype response =
    Json game
  | Json_games "game list"
  | Status nat string
  | Next_error string

section \<open>The games collection\<close>

definition findById :: "object_id \<Rightarrow> game list \<Rightarrow> game option" where
  "findById i ds = find (\<lambda>d. game_id d = i) ds"

definition Game_findById :: "env \<Rightarrow> object_id \<Rightarrow> state \<Rightarrow> error + game option" where
  "Game_findById e i st = (if find_fails e then Inl Store_failure else Inr (findById i (games st)))"

definition Game_find_sorted :: "env \<Rightarrow> state \<Rightarrow> error + game list" where
  "Game_find_sorted e st =
     (if find_fails e then Inl Store_failure
      else Inr (sort_key (\<lambda>d. - game_createdAt d) (games st)))"

text \<open>Saving a new document inserts it; the unique index on \<^verbatim>\<open>_id\<close> rejects a duplicate.\<close>

definition Game_insert :: "env \<Rightarrow> game \<Rightarrow> state \<Rightarrow> error + state" where
  "Game_insert e g st =
     (if save_fails e then Inl Store_failure
      else if game_id g \<in> set (map game_id (games st)) then Inl Duplicate_key
      else Inr (st\<lparr>games := games st @ [g]\<rparr>))"

text \<open>
  Saving a document that was loaded writes its modified paths to the stored document of
  the same \<^verbatim>\<open>_id\<close>. The join route modifies \<^verbatim>\<open>players\<close> only.
\<close>

fun set_players :: "object_id \<Rightarrow> number \<Rightarrow> game list \<Rightarrow> game list option" where
  "set_players i n [] = None"
| "set_players i n (d # ds) =
     (if game_id d = i then Some (d\<lparr>players := n\<rparr> # ds)
      else map_option ((#) d) (set_players i n ds))"

definition Game_save :: "env \<Rightarrow> game \<Rightarrow> state \<Rightarrow> error + state" where
  "Game_save e g st =
     (if save_fails e then Inl Store_failure
      else case set_players (game_id g) (players g) (games st) of
             None \<Rightarrow> Inl Document_not_found
           | Some ds \<Rightarrow> Inr (st\<lparr>games := ds\<rparr>))"

section \<open>REST routes\<close>

record body =
  b_title :: "string option"
  b_sport :: "string option"
  b_time :: "string option"
  b_players :: jsval
  b_location :: "string option"
  b_maxPlayers :: jsval

definition get_games :: "env \<Rightarrow> state \<Rightarrow> state \<times> event list \<times> response" where
  "get_games e st =
     (case Game_find_sorted e st of
        Inl err \<Rightarrow> (st, [], Status 500 ''Error fetching games'')
      | Inr ds \<Rightarrow> (st, [], Json_games ds))"

definition new_Game :: "env \<Rightarrow> body \<Rightarrow> game" where
  "new_Game e b =
     \<lparr>game_id = new_id e,
      title = b_title b,
      sport = b_sport b,
      time = b_time b,
      location = b_location b,
      players = or_zero (Number (b_players b)),
      maxPlayers = Fin 6,
      game_createdAt = now e\<rparr>"

definition create_game :: "env \<Rightarrow> body \<Rightarrow> state \<Rightarrow> state \<times> event list \<times> response" where
  "create_game e b st =
     (let newGame = new_Game e b in
      case Game_insert e newGame st of
        Inl err \<Rightarrow> (st, [], Status 500 ''Error creating game'')
      | Inr st' \<Rightarrow> (st', [], Json newGame))"

text \<open>
  The join route in two parts, split at its first \<^verbatim>\<open>await\<close>: the lookup, and everything
  the handler does once the lookup has answered.
\<close>

definition join_continue ::
  "env \<Rightarrow> error + game option \<Rightarrow> state \<Rightarrow> state \<times> event list \<times> response" where
  "join_continue e found st =
     (case found of
        Inl err \<Rightarrow> (st, [], Status 500 ''Error joining game'')
      | Inr None \<Rightarrow> (st, [], Status 404 ''Game not found'')
      | Inr (Some g) \<Rightarrow>
          if ge (players g) (maxPlayers g) then (st, [], Status 400 ''Game is full'')
          else
            (let g' = g\<lparr>players := plus_one (players g)\<rparr> in
             case Game_save e g' st of
               Inl err \<Rightarrow> (st, [], Status 500 ''Error joining game'')
             | Inr st' \<Rightarrow> (st', [Emit_update_game g'], Json g')))"

definition join_game :: "env \<Rightarrow> object_id \<Rightarrow> state \<Rightarrow> state \<times> event list \<times> response" where
  "join_game e i st = join_continue e (Game_findById e i st) st"

section \<open>The messages collection\<close>

text \<open>
  What a client sends with \<^verbatim>\<open>chat_message\<close>. The handler passes the whole object to the
  \<^verbatim>\<open>Message\<close> constructor, so every schema path the client fills in is taken from it,
  \<^verbatim>\<open>_id\<close> and \<^verbatim>\<open>createdAt\<close> included. A schema default applies to a path that is left
  out, and not to one that is \<^verbatim>\<open>null\<close>: a \<^verbatim>\<open>createdAt: null\<close> is stored as \<^verbatim>\<open>null\<close>.
\<close>

datatype payload_date = Date_absent | Date_null | Date_given date

record payload =
  p_id :: "object_id option"
  p_room :: "string option"
  p_author :: "author option"
  p_text :: "string option"
  p_createdAt :: payload_date

definition new_Message :: "env \<Rightarrow> payload \<Rightarrow> message" where
  "new_Message e m =
     \<lparr>msg_id = (case p_id m of Some i \<Rightarrow> i | None \<Rightarrow> new_id e),
      room = p_room m,
      msg_author = p_author m,
      msg_text = p_text m,
      msg_createdAt =
        (case p_createdAt m of
           Date_absent \<Rightarrow> Some (now e)
         | Date_null \<Rightarrow> None
         | Date_given t \<Rightarrow> Some t)\<rparr>"

definition Message_save :: "env \<Rightarrow> message \<Rightarrow> state \<Rightarrow> error + state" where
  "Message_save e m st =
     (if save_fails e then Inl Store_failure
      else if msg_id m \<in> set (map msg_id (messages st)) then Inl Duplicate_key
      else Inr (st\<lparr>messages := messages st @ [m]\<rparr>))"

text \<open>
  \<^verbatim>\<open>Message.find({ room }).sort({ createdAt: 1 }).limit(50)\<close>: the room's messages in
  ascending order of \<^verbatim>\<open>createdAt\<close> (\<^verbatim>\<open>null\<close> first, ties in insertion order), cut after
  the first 50.
\<close>

definition Message_find_room :: "env \<Rightarrow> string \<Rightarrow> state \<Rightarrow> error + message list" where
  "Message_find_room e r st =
     (if find_fails e then Inl Store_failure
      else Inr (take 50 (sort_key msg_createdAt (filter (\<lambda>m. room m = Some r) (messages st)))))"

section \<open>Socket handlers\<close>

definition socket_join :: "string \<Rightarrow> string \<Rightarrow> state \<Rightarrow> state" where
  "socket_join sid r st = st\<lparr>rooms := (rooms st)(r := insert sid (rooms st r))\<rparr>"

definition socket_leave :: "string \<Rightarrow> string \<Rightarrow> state \<Rightarrow> state" where
  "socket_leave sid r st = st\<lparr>rooms := (rooms st)(r := rooms st r - {sid})\<rparr>"

definition join_room :: "env \<Rightarrow> string \<Rightarrow> string option \<Rightarrow> state \<Rightarrow> state \<times> event list" where
  "join_room e sid rm st =
     (case rm of
        None \<Rightarrow> (st, [])
      | Some r \<Rightarrow>
          if \<not> truthy (Some r) then (st, [])
          else
            (let st1 = socket_join sid r st in
             case Message_find_room e r st1 of
               Inl err \<Rightarrow> (st1, [Console_log_joined sid r, Console_error_loading])
             | Inr ms \<Rightarrow> (st1, [Console_log_joined sid r, Emit_load_messages sid ms])))"

definition leave_room :: "string \<Rightarrow> string option \<Rightarrow> state \<Rightarrow> state \<times> event list" where
  "leave_room sid rm st =
     ((case rm of None \<Rightarrow> st | Some r \<Rightarrow> socket_leave sid r st), [Console_log_left sid rm])"

definition chat_message :: "env \<Rightarrow> payload option \<Rightarrow> state \<Rightarrow> state \<times> event list" where
  "chat_message e msg st =
     (case msg of
        None \<Rightarrow> (st, [])
      | Some m \<Rightarrow>
          (case p_room m of
             None \<Rightarrow> (st, [])
           | Some r \<Rightarrow>
               if \<not> truthy (Some r) then (st, [])
               else
                 (let newMsg = new_Message e m in
                  case Message_save e newMsg st of
                    Inl err \<Rightarrow> (st, [Console_error_saving])
                  | Inr st' \<Rightarrow> (st', [Emit_chat_message r newMsg]))))"

text \<open>On disconnect socket.io takes the socket out of its rooms; the handler only logs.\<close>

definition disconnect :: "string \<Rightarrow> state \<Rightarrow> state \<times> event list" where
  "disconnect sid st = (st\<lparr>rooms := (\<lambda>r. rooms st r - {sid})\<rparr>, [Console_log_disconnected sid])"

text \<open>
  Which sockets an event reaches: \<^verbatim>\<open>io.emit\<close> every socket, \<^verbatim>\<open>socket.emit\<close> that socket,
  \<^verbatim>\<open>io.to(room).emit\<close> the sockets in the room; the console reaches none.
\<close>

fun receives :: "state \<Rightarrow> event \<Rightarrow> string \<Rightarrow> bool" where
  "receives st (Emit_update_game g) sid = True"
| "receives st (Emit_load_messages s ms) sid = (sid = s)"
| "receives st (Emit_chat_message r m) sid = (sid \<in> rooms st r)"
| "receives st (Console_log_joined s r) sid = False"
| "receives st (Console_log_left s r) sid = False"
| "receives st (Console_log_disconnected s) sid = False"
| "receives st Console_error_loading sid = False"
| "receives st Console_error_saving sid = False"

section \<open>The CORS check and the application\<close>

definition allowedOrigins :: "string list" where
  "allowedOrigins = [''http://localhost:5173'', ''https://game1-frontend.vercel.app'']"

fun array_includes :: "string list \<Rightarrow> string option \<Rightarrow> bool" where
  "array_includes xs None = False"
| "array_includes xs (Some x) = (x \<in> set xs)"

text \<open>
  \<^verbatim>\<open>corsOptions.origin\<close>: the value it hands to its callback, \<open>Inl\<close> the message of the
  error.
\<close>

definition corsOptions_origin :: "string option \<Rightarrow> string + bool" where
  "corsOptions_origin origin =
     (if \<not> truthy origin \<or> array_includes allowedOrigins origin then Inr True
      else Inl ''Not allowed by CORS'')"

datatype request = GET_games | POST_games body | PUT_join object_id

fun route :: "env \<Rightarrow> request \<Rightarrow> state \<Rightarrow> state \<times> event list \<times> response" where
  "route e GET_games st = get_games e st"
| "route e (POST_games b) st = create_game e b st"
| "route e (PUT_join i) st = join_game e i st"

text \<open>
  The CORS middleware is the first one mounted: an error from the origin check goes to
  \<^verbatim>\<open>next\<close> and no route runs.
\<close>

definition app ::
  "env \<Rightarrow> string option \<Rightarrow> request \<Rightarrow> state \<Rightarrow> state \<times> event list \<times> response" where
  "app e origin req st =
     (case corsOptions_origin origin of
        Inl msg \<Rightarrow> (st, [], Next_error msg)
      | Inr ok \<Rightarrow> route e req st)"

text \<open>
  The socket.io server is created with \<^verbatim>\<open>cors: { origin: allowedOrigins }\<close>. That option
  decides the \<^verbatim>\<open>Access-Control-Allow-Origin\<close> header of the handshake response, the
  request's origin when it is listed and none otherwise. It refuses no connection, and
  the \<^verbatim>\<open>connection\<close> handler does not look at the origin.
\<close>

definition io_cors_header :: "string option \<Rightarrow> string option" where
  "io_cors_header origin = (if array_includes allowedOrigins origin then origin else None)"

datatype socket_event =
    Join_room "string option"
  | Leave_room "string option"
  | Chat_message "payload option"
  | Disconnect

text \<open>An event from the socket \<open>sid\<close>, whose connection was opened from \<open>origin\<close>.\<close>

fun io_connection ::
  "env \<Rightarrow> string option \<Rightarrow> string \<Rightarrow> socket_event \<Rightarrow> state \<Rightarrow> state \<times> event list" where
  "io_connection e origin sid (Join_room rm) st = join_room e sid rm st"
| "io_connection e origin sid (Leave_room rm) st = leave_room sid rm st"
| "io_connection e origin sid (Chat_message msg) st = chat_message e msg st"
| "io_connection e origin sid Disconnect st = disconnect sid st"



section \<open>Join requests in flight together\<close>

text \<open>
  A join request suspends at \<^verbatim>\<open>await Game.findById(id)\<close> and other handlers run
  meanwhile. A request in flight is therefore in one of three places: its lookup not yet
  answered, its lookup answered and the rest of the handler still to run, or finished.
  A schedule names, step by step, which request moves next.
\<close>

datatype task = Requested object_id | Fetched "error + game option" | Responded response

fun task_step :: "env \<Rightarrow> task \<Rightarrow> state \<Rightarrow> task \<times> state \<times> event list" where
  "task_step e (Requested i) st = (Fetched (Game_findById e i st), st, [])"
| "task_step e (Fetched found) st =
     (case join_continue e found st of (st', evs, res) \<Rightarrow> (Responded res, st', evs))"
| "task_step e (Responded res) st = (Responded res, st, [])"

fun run :: "env \<Rightarrow> nat list \<Rightarrow> task list \<times> state \<times> event list \<Rightarrow> task list \<times> state \<times> event list" where
  "run e [] c = c"
| "run e (k # sched) (ts, st, out) =
     (if k < length ts then
        (case task_step e (ts ! k) st of
           (t', st', evs) \<Rightarrow> run e sched (ts[k := t'], st', out @ evs))
      else run e sched (ts, st, out))"

fun succeeded :: "task \<Rightarrow> bool" where
  "succeeded (Responded (Json g)) = True"
| "succeeded t = False"

text \<open>
  For comparison, \<open>n\<close> join requests for the same game handled one after another, each
  finished before the next starts.
\<close>

fun join_many :: "env \<Rightarrow> object_id \<Rightarrow> nat \<Rightarrow> state \<Rightarrow> response list \<times> state" where
  "join_many e i 0 st = ([], st)"
| "join_many e i (Suc n) st =
     (case join_game e i st of
        (st', evs, res) \<Rightarrow>
          (case join_many e i n st' of (rs, st'') \<Rightarrow> (res # rs, st'')))"

fun is_Json :: "response \<Rightarrow> bool" where
  "is_Json (Json g) = True"
| "is_Json r = False"

section \<open>The capacity invariant\<close>




section \<open>Example data\<close>

definition env0 :: env where
  "env0 = \<lparr>now = 100, new_id = 7, find_fails = False, save_fails = False\<rparr>"

definition state0 :: state where
  "state0 = \<lparr>games = [], messages = [], rooms = (\<lambda>r. {})\<rparr>"

definition body0 :: body where
  "body0 = \<lparr>b_title = Some ''Sunday five-a-side'', b_sport = Some ''football'',
            b_time = Some ''18:00'', b_players = Undefined, b_location = Some ''park'',
            b_maxPlayers = Undefined\<rparr>"

definition game0 :: "number \<Rightarrow> game" where
  "game0 n = \<lparr>game_id = 1, title = Some ''Sunday five-a-side'', sport = Some ''football'',
             time = Some ''18:00'', location = Some ''park'', players = n, maxPlayers = Fin 6,
             game_createdAt = 50\<rparr>"

definition state1 :: "number \<Rightarrow> state" where
  "state1 n = \<lparr>games = [game0 n], messages = [], rooms = (\<lambda>r. {})\<rparr>"


definition alice :: author where
  "alice = \<lparr>author_id = Some ''u1'', author_name = Some ''Alice''\<rparr>"

definition payload0 :: payload where
  "payload0 = \<lparr>p_id = None, p_room = Some ''r1'', p_author = Some alice, p_text = Some ''hi'',
               p_createdAt = Date_absent\<rparr>"

text \<open>The \<open>n\<close>-th message of a busy room, sent at time \<open>n\<close>, and a store holding the first \<open>n\<close>.\<close>

definition msg_at :: "nat \<Rightarrow> message" where
  "msg_at n = \<lparr>msg_id = n, room = Some ''lobby'', msg_author = Some alice,
              msg_text = Some ''hi'', msg_createdAt = Some (int n)\<rparr>"

definition state_msgs :: "nat \<Rightarrow> state" where
  "state_msgs n = \<lparr>games = [], messages = map msg_at [0..<n], rooms = (\<lambda>r. {})\<rparr>"

section \<open>Double addition\<close>

lemma round_half_even_of_int: "round_half_even (of_int z) = z"
  by (simp add: round_half_even_def)

lemma halvings_small: "a < 2 ^ 53 \<Longrightarrow> halvings a = 0"
  by (simp add: halvings.simps)

lemma round_double_of_int:
  assumes "\<bar>of_int z :: rat\<bar> < 2 ^ 53"
  shows "round_double (of_int z) = of_int z"
proof (cases "z = 0")
  case True
  then show ?thesis by (simp add: round_double_def)
next
  case False
  let ?k = "doublings \<bar>of_int z :: rat\<bar>"
  have e: "exponent \<bar>of_int z :: rat\<bar> = - int ?k"
    using assms by (simp add: exponent_def halvings_small)
  have "(of_int z :: rat) / pow2 (- int ?k) = of_int (z * 2 ^ ?k)"
    by (simp add: pow2_def)
  then have "round_half_even ((of_int z :: rat) / pow2 (- int ?k)) = z * 2 ^ ?k"
    by (simp only: round_half_even_of_int)
  then show ?thesis using False e
    by (simp add: round_double_def Let_def pow2_def)
qed

lemma plus_one_exact:
  assumes "\<bar>n + 1\<bar> < 2 ^ 53"
  shows "plus_one (Fin (of_int n)) = Fin (of_int (n + 1))"
proof -
  have "(of_int \<bar>n + 1\<bar> :: rat) < of_int (2 ^ 53)"
    using assms by (simp only: of_int_less_iff)
  then have "\<bar>of_int (n + 1) :: rat\<bar> < 2 ^ 53" by simp
  from round_double_of_int [OF this] show ?thesis by simp
qed

lemma plus_one_five: "plus_one (Fin 5) = Fin 6"
  using plus_one_exact [of 5] by simp


lemma halvings_add: "2 ^ 52 * 2 ^ k \<le> a \<Longrightarrow> a < 2 ^ 53 * 2 ^ k \<Longrightarrow> halvings a = k"
proof (induction k arbitrary: a)
  case 0
  then show ?case by (simp add: halvings.simps)
next
  case (Suc k)
  have "(1::rat) \<le> 2 ^ k" by simp
  then have "(2::rat) ^ 53 * 1 \<le> 2 ^ 53 * 2 ^ k" by (intro mult_left_mono) simp_all
  then have "(2::rat) ^ 53 \<le> 2 ^ 52 * 2 ^ Suc k" by simp
  also have "\<dots> \<le> a" by (rule Suc.prems(1))
  finally have "2 ^ 53 \<le> a" .
  moreover have "halvings (a / 2) = k" using Suc.prems by (intro Suc.IH) simp_all
  ultimately show ?case by (subst halvings.simps) simp
qed


lemma plus_one_absorbed:
  "plus_one (Fin (- 100000000000000000)) = Fin (- 100000000000000000)"
proof -
  have h: "halvings 99999999999999999 = 4" by (rule halvings_add) simp_all
  have d: "doublings 99999999999999999 = 0" by (simp add: doublings.simps)
  have fl: "\<lfloor>- (99999999999999999 / 16) :: rat\<rfloor> = - 6250000000000000"
    by (rule floor_unique) simp_all
  have "round_half_even (- 99999999999999999 / pow2 4) = - 6250000000000000"
    by (simp add: round_half_even_def pow2_def Let_def fl)
  then have "round_double (- 99999999999999999) = - 100000000000000000"
    by (simp add: round_double_def exponent_def d h Let_def) (simp add: pow2_def)
  moreover have "(- 100000000000000000 :: rat) + 1 = - 99999999999999999" by simp
  ultimately show ?thesis by simp
qed


section \<open>Lemmas on the games collection\<close>


lemma set_players_None: "set_players i n ds = None \<longleftrightarrow> findById i ds = None"
  by (induction ds) (auto simp: findById_def)

lemma set_players_Some:
  "findById i ds = Some d \<Longrightarrow>
   \<exists>ds'. set_players i n ds = Some ds' \<and> findById i ds' = Some (d\<lparr>players := n\<rparr>)"
  by (induction ds) (auto simp: findById_def split: if_splits)

lemma findById_game_id: "findById i ds = Some d \<Longrightarrow> game_id d = i"
  by (induction ds) (auto simp: findById_def split: if_splits)

lemma set_players_other:
  "set_players i n ds = Some ds' \<Longrightarrow> j \<noteq> i \<Longrightarrow> findById j ds' = findById j ds"
  by (induction ds arbitrary: ds') (auto simp: findById_def split: if_splits)

section \<open>The join route\<close>

lemma join_game_500_find: "find_fails e \<Longrightarrow> join_game e i st = (st, [], Status 500 ''Error joining game'')"
  by (simp add: join_game_def join_continue_def Game_findById_def)

lemma join_game_404:
  "\<not> find_fails e \<Longrightarrow> findById i (games st) = None \<Longrightarrow>
   join_game e i st = (st, [], Status 404 ''Game not found'')"
  by (simp add: join_game_def join_continue_def Game_findById_def)

lemma join_game_400:
  "\<not> find_fails e \<Longrightarrow> findById i (games st) = Some g \<Longrightarrow> ge (players g) (maxPlayers g) \<Longrightarrow>
   join_game e i st = (st, [], Status 400 ''Game is full'')"
  by (simp add: join_game_def join_continue_def Game_findById_def)

lemma join_game_500_save:
  "\<not> find_fails e \<Longrightarrow> findById i (games st) = Some g \<Longrightarrow> \<not> ge (players g) (maxPlayers g) \<Longrightarrow>
   save_fails e \<Longrightarrow> join_game e i st = (st, [], Status 500 ''Error joining game'')"
  by (simp add: join_game_def join_continue_def Game_findById_def Game_save_def Let_def)

lemma join_game_200:
  assumes "\<not> find_fails e" "findById i (games st) = Some g" "\<not> ge (players g) (maxPlayers g)"
    "\<not> save_fails e"
  shows "\<exists>ds. set_players i (plus_one (players g)) (games st) = Some ds \<and>
     join_game e i st = (st\<lparr>games := ds\<rparr>, [Emit_update_game (g\<lparr>players := plus_one (players g)\<rparr>)],
        Json (g\<lparr>players := plus_one (players g)\<rparr>)) \<and>
     findById i ds = Some (g\<lparr>players := plus_one (players g)\<rparr>)"
proof -
  from set_players_Some[OF assms(2), of "plus_one (players g)"] obtain ds where
    ds: "set_players i (plus_one (players g)) (games st) = Some ds"
        "findById i ds = Some (g\<lparr>players := plus_one (players g)\<rparr>)" by blast
  have gid: "game_id g = i" using assms(2) by (rule findById_game_id)
  show ?thesis using assms ds gid
    by (simp add: join_game_def join_continue_def Game_findById_def Game_save_def Let_def)
qed

text \<open>
  Claim C1, as amended. A join request for id \<open>i\<close> has exactly these outcomes. If the
  lookup rejects, the route answers 500 and changes nothing. Otherwise: with no game of
  that id it answers 404 (NotFound); with a game whose \<open>players\<close> has reached
  \<open>maxPlayers\<close> it answers 400 (CapacityExceeded); else, if the save rejects, it answers
  500 and changes nothing; else it answers with the game with \<open>players\<close> set to the
  double sum \<open>players + 1\<close>, that game is what the store now holds under \<open>i\<close>, and
  nothing else in the state has changed. The double sum is exactly one more whenever
  \<open>players\<close> is a whole number \<open>n\<close> with \<open>n + 1\<close> of magnitude below \<open>2^53\<close>.
\<close>

theorem join_game_outcomes:
  "(find_fails e \<longrightarrow> join_game e i st = (st, [], Status 500 ''Error joining game'')) \<and>
   (\<not> find_fails e \<longrightarrow>
     (case findById i (games st) of
        None \<Rightarrow> join_game e i st = (st, [], Status 404 ''Game not found'')
      | Some g \<Rightarrow>
          (ge (players g) (maxPlayers g) \<longrightarrow> join_game e i st = (st, [], Status 400 ''Game is full'')) \<and>
          (\<not> ge (players g) (maxPlayers g) \<longrightarrow>
             (save_fails e \<longrightarrow> join_game e i st = (st, [], Status 500 ''Error joining game'')) \<and>
             (\<not> save_fails e \<longrightarrow>
                (\<exists>st'. join_game e i st =
                    (st', [Emit_update_game (g\<lparr>players := plus_one (players g)\<rparr>)],
                     Json (g\<lparr>players := plus_one (players g)\<rparr>)) \<and>
                  findById i (games st') = Some (g\<lparr>players := plus_one (players g)\<rparr>) \<and>
                  (\<forall>j. j \<noteq> i \<longrightarrow> findById j (games st') = findById j (games st)) \<and>
                  messages st' = messages st \<and> rooms st' = rooms st))))) \<and>
   (\<forall>n. \<bar>n + 1\<bar> < 2 ^ 53 \<longrightarrow> plus_one (Fin (of_int n)) = Fin (of_int (n + 1)))"
proof (intro conjI impI)
  assume "find_fails e"
  then show "join_game e i st = (st, [], Status 500 ''Error joining game'')"
    by (rule join_game_500_find)
next
  assume nf: "\<not> find_fails e"
  show "case findById i (games st) of
        None \<Rightarrow> join_game e i st = (st, [], Status 404 ''Game not found'')
      | Some g \<Rightarrow>
          (ge (players g) (maxPlayers g) \<longrightarrow> join_game e i st = (st, [], Status 400 ''Game is full'')) \<and>
          (\<not> ge (players g) (maxPlayers g) \<longrightarrow>
             (save_fails e \<longrightarrow> join_game e i st = (st, [], Status 500 ''Error joining game'')) \<and>
             (\<not> save_fails e \<longrightarrow>
                (\<exists>st'. join_game e i st =
                    (st', [Emit_update_game (g\<lparr>players := plus_one (players g)\<rparr>)],
                     Json (g\<lparr>players := plus_one (players g)\<rparr>)) \<and>
                  findById i (games st') = Some (g\<lparr>players := plus_one (players g)\<rparr>) \<and>
                  (\<forall>j. j \<noteq> i \<longrightarrow> findById j (games st') = findById j (games st)) \<and>
                  messages st' = messages st \<and> rooms st' = rooms st)))"
  proof (cases "findById i (games st)")
    case None
    then show ?thesis using nf by (simp add: join_game_404)
  next
    case (Some g)
    have full: "ge (players g) (maxPlayers g) \<Longrightarrow> join_game e i st = (st, [], Status 400 ''Game is full'')"
      using nf Some by (rule join_game_400)
    have sf: "\<not> ge (players g) (maxPlayers g) \<Longrightarrow> save_fails e \<Longrightarrow>
        join_game e i st = (st, [], Status 500 ''Error joining game'')"
      using nf Some by (rule join_game_500_save)
    have ok: "\<exists>st'. join_game e i st =
                    (st', [Emit_update_game (g\<lparr>players := plus_one (players g)\<rparr>)],
                     Json (g\<lparr>players := plus_one (players g)\<rparr>)) \<and>
                  findById i (games st') = Some (g\<lparr>players := plus_one (players g)\<rparr>) \<and>
                  (\<forall>j. j \<noteq> i \<longrightarrow> findById j (games st') = findById j (games st)) \<and>
                  messages st' = messages st \<and> rooms st' = rooms st"
      if lt: "\<not> ge (players g) (maxPlayers g)" and ns: "\<not> save_fails e"
    proof -
      from join_game_200[OF nf Some lt ns] obtain ds where
        ds: "set_players i (plus_one (players g)) (games st) = Some ds"
          "join_game e i st = (st\<lparr>games := ds\<rparr>, [Emit_update_game (g\<lparr>players := plus_one (players g)\<rparr>)],
             Json (g\<lparr>players := plus_one (players g)\<rparr>))"
          "findById i ds = Some (g\<lparr>players := plus_one (players g)\<rparr>)" by blast
      have "\<forall>j. j \<noteq> i \<longrightarrow> findById j ds = findById j (games st)"
        using set_players_other[OF ds(1)] by blast
      with ds show ?thesis by simp
    qed
    show ?thesis using Some full sf ok by simp
  qed
next
  show "\<forall>n. \<bar>n + 1\<bar> < 2 ^ 53 \<longrightarrow> plus_one (Fin (of_int n)) = Fin (of_int (n + 1))"
    using plus_one_exact by blast
qed

theorem join_game_outcomes_witness:
  "\<exists>st'. join_game env0 1 (state1 (Fin 5)) = (st', [Emit_update_game (game0 (Fin 6))], Json (game0 (Fin 6))) \<and>
     findById 1 (games st') = Some (game0 (Fin 6))"
  using join_game_outcomes [where e = env0 and i = 1 and st = "state1 (Fin 5)"]
  by (auto simp: env0_def state1_def game0_def findById_def plus_one_five simp del: plus_one.simps)

text \<open>
  The claim as first stated promises 404 whenever no game of the id exists, and an
  increment by exactly 1 whenever the game is below capacity. When the lookup rejects, the
  \<^verbatim>\<open>catch\<close> branch answers 500 instead. And a game of \<open>-1e17\<close> players is below
  capacity, the join answers with it and broadcasts it, and its count is still \<open>-1e17\<close>:
  the double sum \<open>-1e17 + 1\<close> rounds back to \<open>-1e17\<close>.
\<close>

theorem join_game_lookup_rejected:
  "findById 1 (games state0) = None \<and>
   join_game (env0\<lparr>find_fails := True\<rparr>) 1 state0 = (state0, [], Status 500 ''Error joining game'') \<and>
   join_game env0 1 (state1 (Fin (- 100000000000000000))) =
     (state1 (Fin (- 100000000000000000)),
      [Emit_update_game (game0 (Fin (- 100000000000000000)))],
      Json (game0 (Fin (- 100000000000000000))))"
  by (simp add: join_game_def join_continue_def Game_findById_def Game_save_def env0_def
      state0_def state1_def game0_def findById_def Let_def plus_one_absorbed
      del: plus_one.simps)


section \<open>The create route\<close>

lemma create_game_cases:
  "create_game e b st =
     (if save_fails e \<or> new_id e \<in> set (map game_id (games st))
      then (st, [], Status 500 ''Error creating game'')
      else (st\<lparr>games := games st @ [new_Game e b]\<rparr>, [], Json (new_Game e b)))"
  by (simp add: create_game_def Game_insert_def Let_def new_Game_def)

lemma maxPlayers_new_Game: "maxPlayers (new_Game e b) = Fin 6"
  by (simp add: new_Game_def)

lemma players_new_Game: "players (new_Game e b) = or_zero (Number (b_players b))"
  by (simp add: new_Game_def)

lemma new_Game_ignores_maxPlayers: "new_Game e (b\<lparr>b_maxPlayers := v\<rparr>) = new_Game e b"
  by (simp add: new_Game_def)

text \<open>
  Claim C7. A create request without a \<open>players\<close> field: when the insert goes through
  the route answers with the created game and appends it to the collection, and whatever
  game it answers with has \<open>maxPlayers = 6\<close> and \<open>players = 0\<close>. Nothing is asked of
  the request's \<open>maxPlayers\<close> field, which the route does not read.
\<close>

theorem create_game_defaults:
  "b_players b = Undefined \<Longrightarrow>
   (\<not> save_fails e \<and> new_id e \<notin> set (map game_id (games st)) \<longrightarrow>
      (\<exists>g. create_game e b st = (st\<lparr>games := games st @ [g]\<rparr>, [], Json g))) \<and>
   (\<forall>st' evs g. create_game e b st = (st', evs, Json g) \<longrightarrow>
      maxPlayers g = Fin 6 \<and> players g = Fin 0 \<and> games st' = games st @ [g])"
  by (auto simp: create_game_cases maxPlayers_new_Game players_new_Game split: if_splits)

theorem create_game_defaults_witness:
  "b_players body0 = Undefined \<and>
   (\<exists>g. create_game env0 body0 state0 = (state0\<lparr>games := [g]\<rparr>, [], Json g) \<and>
      maxPlayers g = Fin 6 \<and> players g = Fin 0)"
  using create_game_defaults [where e = env0 and b = body0 and st = state0]
  by (auto simp: body0_def env0_def state0_def)

text \<open>
  Claim C9. The create route gives the same result whatever the request's \<open>maxPlayers\<close>
  field holds; the game it answers with and stores has \<open>maxPlayers = 6\<close>, and every
  game in the collection afterwards was there before or has \<open>maxPlayers = 6\<close>.
\<close>

theorem create_game_maxPlayers_fixed:
  "create_game e (b\<lparr>b_maxPlayers := v\<rparr>) st = create_game e b st \<and>
   (\<forall>st' evs g. create_game e b st = (st', evs, Json g) \<longrightarrow>
      maxPlayers g = Fin 6 \<and> games st' = games st @ [g]) \<and>
   (\<forall>st' evs res. create_game e b st = (st', evs, res) \<longrightarrow>
      (\<forall>d \<in> set (games st'). d \<in> set (games st) \<or> maxPlayers d = Fin 6))"
  by (auto simp: create_game_cases maxPlayers_new_Game new_Game_ignores_maxPlayers split: if_splits)

theorem create_game_maxPlayers_fixed_witness:
  "\<exists>g. create_game env0 (body0\<lparr>b_maxPlayers := JNum (Fin 12)\<rparr>) state0 = (state0\<lparr>games := [g]\<rparr>, [], Json g) \<and>
     maxPlayers g = Fin 6"
  using create_game_maxPlayers_fixed [where e = env0 and b = body0 and v = "JNum (Fin 12)" and st = state0]
  by (auto simp: create_game_cases body0_def env0_def state0_def)

section \<open>Failed joins\<close>

lemma join_game_result:
  "join_game e i st = (st', evs, res) \<Longrightarrow>
   (st' = st \<and> evs = [] \<and>
      (res = Status 500 ''Error joining game'' \<or> res = Status 404 ''Game not found'' \<or>
       res = Status 400 ''Game is full'')) \<or>
   (\<exists>g. \<not> find_fails e \<and> \<not> save_fails e \<and> findById i (games st) = Some g \<and>
        \<not> ge (players g) (maxPlayers g) \<and>
        evs = [Emit_update_game (g\<lparr>players := plus_one (players g)\<rparr>)] \<and>
        res = Json (g\<lparr>players := plus_one (players g)\<rparr>) \<and>
        findById i (games st') = Some (g\<lparr>players := plus_one (players g)\<rparr>))"
proof (cases "find_fails e")
  case True
  assume "join_game e i st = (st', evs, res)"
  with join_game_500_find[OF True, of i st] show ?thesis by simp
next
  case nf: False
  assume r: "join_game e i st = (st', evs, res)"
  show ?thesis
  proof (cases "findById i (games st)")
    case None
    with join_game_404[OF nf None] r show ?thesis by simp
  next
    case (Some g)
    show ?thesis
    proof (cases "ge (players g) (maxPlayers g)")
      case True
      with join_game_400[OF nf Some True] r show ?thesis by simp
    next
      case False
      then have lt: "\<not> ge (players g) (maxPlayers g)" .
      show ?thesis
      proof (cases "save_fails e")
        case True
        with join_game_500_save[OF nf Some lt True] r show ?thesis by simp
      next
        case ns: False
        from join_game_200[OF nf Some lt ns] r nf ns Some lt show ?thesis by auto
      qed
    qed
  qed
qed



section \<open>Joining a room\<close>

lemma join_room_falsy: "\<not> truthy rm \<Longrightarrow> join_room e sid rm st = (st, [])"
  by (cases rm) (simp_all add: join_room_def)

lemma join_room_loads:
  "r \<noteq> [] \<Longrightarrow> \<not> find_fails e \<Longrightarrow>
   join_room e sid (Some r) st =
     (socket_join sid r st,
      [Console_log_joined sid r,
       Emit_load_messages sid
         (take 50 (sort_key msg_createdAt (filter (\<lambda>m. room m = Some r) (messages st))))])"
  by (simp add: join_room_def Message_find_room_def socket_join_def Let_def)

lemma filter_lobby: "filter (\<lambda>m. room m = Some ''lobby'') (map msg_at ns) = map msg_at ns"
  by (induction ns) (simp_all add: msg_at_def)

lemma sorted_msg_at: "sorted (map msg_createdAt (map msg_at [0..<n]))"
proof -
  have "map msg_createdAt (map msg_at ns) = map (\<lambda>k. Some (int k)) ns" for ns
    by (induction ns) (simp_all add: msg_at_def)
  moreover have "sorted (map (\<lambda>k. Some (int k)) [0..<n])"
    by (simp add: sorted_map sorted_wrt_iff_nth_less)
  ultimately show ?thesis by (simp only:)
qed

lemma take_fifty_upt: "take 50 [0..<n] = [0..<min 50 n]"
proof (cases "n \<le> 50")
  case True
  then show ?thesis by (simp add: min_def)
next
  case False
  then have "take 50 [0..<n] = [0..<0 + 50]" by (intro take_upt) simp
  with False show ?thesis by (simp add: min_def)
qed

lemma history_of_lobby:
  "take 50 (sort_key msg_createdAt (filter (\<lambda>m. room m = Some ''lobby'') (messages (state_msgs n))))
   = map msg_at [0..<min 50 n]"
proof -
  have "sort_key msg_createdAt (map msg_at [0..<n]) = map msg_at [0..<n]"
    using sorted_msg_at by (rule sort_key_id_if_sorted)
  then show ?thesis
    by (simp add: state_msgs_def filter_lobby take_map take_fifty_upt)
qed

text \<open>
  Claim C4, at a room that holds 51 messages sent at times 0 to 50. The joining socket is
  put in the room and is sent the messages of times 0 to 49, oldest first: the first 50
  of the ascending order. The newest message, of time 50, is in the store and is not
  sent, while the oldest, of time 0, is.
\<close>

theorem join_room_sends_oldest_fifty:
  "join_room env0 ''s1'' (Some ''lobby'') (state_msgs 51) =
     (socket_join ''s1'' ''lobby'' (state_msgs 51),
      [Console_log_joined ''s1'' ''lobby'', Emit_load_messages ''s1'' (map msg_at [0..<50])]) \<and>
   msg_at 50 \<in> set (messages (state_msgs 51)) \<and>
   msg_at 50 \<notin> set (map msg_at [0..<50]) \<and>
   msg_at 0 \<in> set (map msg_at [0..<50]) \<and>
   msg_createdAt (msg_at 0) < msg_createdAt (msg_at 50)"
proof -
  have "join_room env0 ''s1'' (Some ''lobby'') (state_msgs 51) =
     (socket_join ''s1'' ''lobby'' (state_msgs 51),
      [Console_log_joined ''s1'' ''lobby'', Emit_load_messages ''s1'' (map msg_at [0..<50])])"
    using history_of_lobby [of 51] 
    by (simp add: join_room_loads env0_def socket_join_def state_msgs_def)
  moreover have "msg_at 50 \<in> set (messages (state_msgs 51))"
    by (simp add: state_msgs_def)
  moreover have "msg_at 50 \<notin> set (map msg_at [0..<50])"
    by (auto simp: msg_at_def)
  moreover have "msg_at 0 \<in> set (map msg_at [0..<50])"
    by simp
  moreover have "msg_createdAt (msg_at 0) < msg_createdAt (msg_at 50)"
    by (simp add: msg_at_def)
  ultimately show ?thesis by blast
qed

section \<open>Sending a chat message\<close>

lemma chat_message_not_saved:
  "p_room m = Some r \<Longrightarrow> r \<noteq> [] \<Longrightarrow> Message_save e (new_Message e m) st = Inl err \<Longrightarrow>
   chat_message e (Some m) st = (st, [Console_error_saving])"
  by (simp add: chat_message_def Let_def)

lemma chat_message_no_room:
  "msg = None \<or> (\<exists>m. msg = Some m \<and> \<not> truthy (p_room m)) \<Longrightarrow> chat_message e msg st = (st, [])"
  by (auto simp: chat_message_def split: option.splits)

lemma Message_save_Inl: "save_fails e \<Longrightarrow> Message_save e m st = Inl Store_failure"
  by (simp add: Message_save_def)

text \<open>
  Claim C5, at three payloads for room \<open>r1\<close> that differ only in \<open>createdAt\<close>, with the
  server's clock at 100. A payload with \<open>createdAt = 5\<close> is stored and broadcast with 5,
  one with 6 with 6, and one with \<open>createdAt: null\<close> with no timestamp at all: the
  stored \<open>createdAt\<close> is the client's, never the server's 100.
\<close>

theorem chat_message_client_timestamp:
  "chat_message env0 (Some (payload0\<lparr>p_createdAt := Date_given 5\<rparr>)) state0 =
     (state0\<lparr>messages := [\<lparr>msg_id = 7, room = Some ''r1'', msg_author = Some alice,
                              msg_text = Some ''hi'', msg_createdAt = Some 5\<rparr>]\<rparr>,
      [Emit_chat_message ''r1''
         \<lparr>msg_id = 7, room = Some ''r1'', msg_author = Some alice,
          msg_text = Some ''hi'', msg_createdAt = Some 5\<rparr>]) \<and>
   chat_message env0 (Some (payload0\<lparr>p_createdAt := Date_given 6\<rparr>)) state0 =
     (state0\<lparr>messages := [\<lparr>msg_id = 7, room = Some ''r1'', msg_author = Some alice,
                              msg_text = Some ''hi'', msg_createdAt = Some 6\<rparr>]\<rparr>,
      [Emit_chat_message ''r1''
         \<lparr>msg_id = 7, room = Some ''r1'', msg_author = Some alice,
          msg_text = Some ''hi'', msg_createdAt = Some 6\<rparr>]) \<and>
   chat_message env0 (Some (payload0\<lparr>p_createdAt := Date_null\<rparr>)) state0 =
     (state0\<lparr>messages := [\<lparr>msg_id = 7, room = Some ''r1'', msg_author = Some alice,
                              msg_text = Some ''hi'', msg_createdAt = None\<rparr>]\<rparr>,
      [Emit_chat_message ''r1''
         \<lparr>msg_id = 7, room = Some ''r1'', msg_author = Some alice,
          msg_text = Some ''hi'', msg_createdAt = None\<rparr>]) \<and>
   now env0 = 100"
  by (simp add: chat_message_def Message_save_def new_Message_def payload0_def env0_def
      state0_def Let_def)

text \<open>
  Claim C6. A \<open>chat_message\<close> with no payload, no room or an empty room changes nothing
  and emits nothing. When the room is non-empty and the save rejects, the state is
  unchanged (sockets keep their rooms), the only event is the error written to the
  console, which no socket receives; a rejecting store is one way for the save to fail.
\<close>

theorem chat_message_dropped:
  "(msg = None \<or> (\<exists>m. msg = Some m \<and> \<not> truthy (p_room m)) \<longrightarrow>
      chat_message e msg st = (st, [])) \<and>
   (\<forall>m err. msg = Some m \<and> truthy (p_room m) \<and>
        Message_save e (new_Message e m) st = Inl err \<longrightarrow>
      chat_message e msg st = (st, [Console_error_saving]) \<and>
      (\<forall>sid. \<not> receives st Console_error_saving sid)) \<and>
   (save_fails e \<longrightarrow> (\<forall>nm. Message_save e nm st = Inl Store_failure))"
proof (intro conjI impI allI)
  assume "msg = None \<or> (\<exists>m. msg = Some m \<and> \<not> truthy (p_room m))"
  then show "chat_message e msg st = (st, [])" by (rule chat_message_no_room)
next
  fix m err
  assume a: "msg = Some m \<and> truthy (p_room m) \<and> Message_save e (new_Message e m) st = Inl err"
  then obtain r where r: "p_room m = Some r" "r \<noteq> []" by (cases "p_room m") auto
  from a chat_message_not_saved [OF r] show "chat_message e msg st = (st, [Console_error_saving])"
    by simp
next
  fix m err sid
  show "\<not> receives st Console_error_saving sid" by simp
next
  fix nm
  assume "save_fails e"
  then show "Message_save e nm st = Inl Store_failure" by (rule Message_save_Inl)
qed

theorem chat_message_dropped_witness:
  "chat_message env0 (Some (payload0\<lparr>p_room := Some ''''\<rparr>)) state0 = (state0, []) \<and>
   chat_message env0 (Some (payload0\<lparr>p_room := None\<rparr>)) state0 = (state0, []) \<and>
   chat_message (env0\<lparr>save_fails := True\<rparr>) (Some payload0) state0 = (state0, [Console_error_saving])"
  using chat_message_dropped
      [where e = env0 and msg = "Some (payload0\<lparr>p_room := Some ''''\<rparr>)" and st = state0]
    chat_message_dropped
      [where e = env0 and msg = "Some (payload0\<lparr>p_room := None\<rparr>)" and st = state0]
    chat_message_dropped
      [where e = "env0\<lparr>save_fails := True\<rparr>" and msg = "Some payload0" and st = state0]
  by (simp add: payload0_def env0_def)

section \<open>The origin check\<close>

lemma corsOptions_origin_cases:
  "corsOptions_origin origin =
     (if origin = None \<or> origin = Some [] \<or> origin = Some ''http://localhost:5173'' \<or>
         origin = Some ''https://game1-frontend.vercel.app''
      then Inr True else Inl ''Not allowed by CORS'')"
  by (cases origin) (auto simp: corsOptions_origin_def allowedOrigins_def)

text \<open>
  On the REST routes the check does what it is there for: a request that carries an
  Origin outside the allow-list gets the error and no route runs; one from a listed
  origin, or with no Origin, runs its route.
\<close>

lemma app_origin_check:
  "(\<forall>x. origin = Some x \<and> x \<noteq> [] \<and> x \<notin> set allowedOrigins \<longrightarrow>
      corsOptions_origin origin = Inl ''Not allowed by CORS'' \<and>
      app e origin req st = (st, [], Next_error ''Not allowed by CORS'')) \<and>
   (origin = None \<or> origin = Some [] \<or> (\<exists>x. origin = Some x \<and> x \<in> set allowedOrigins) \<longrightarrow>
      corsOptions_origin origin = Inr True \<and> app e origin req st = route e req st) \<and>
   set allowedOrigins = {''http://localhost:5173'', ''https://game1-frontend.vercel.app''}"
  by (auto simp: corsOptions_origin_cases app_def allowedOrigins_def)

lemma io_connection_any_origin:
  "io_connection e origin sid ev st = io_connection e None sid ev st"
  by (cases ev) simp_all

text \<open>
  Claim C8, at a client whose origin \<open>https://evil.example\<close> is not in the allow-list.
  Its REST request is refused before the join route runs. Its socket.io connection is
  not: the handshake response merely carries no allow-origin header, and the events of
  the connection reach the handlers, which put the socket in a room and store and
  broadcast its message.
\<close>

theorem socket_connection_unlisted_origin:
  "\<not> array_includes allowedOrigins (Some ''https://evil.example'') \<and>
   app env0 (Some ''https://evil.example'') (PUT_join 1) (state1 (Fin 5)) =
     (state1 (Fin 5), [], Next_error ''Not allowed by CORS'') \<and>
   io_cors_header (Some ''https://evil.example'') = None \<and>
   io_connection env0 (Some ''https://evil.example'') ''s1'' (Join_room (Some ''r1'')) state0 =
     (socket_join ''s1'' ''r1'' state0,
      [Console_log_joined ''s1'' ''r1'', Emit_load_messages ''s1'' []]) \<and>
   io_connection env0 (Some ''https://evil.example'') ''s1'' (Chat_message (Some payload0)) state0 =
     (state0\<lparr>messages := [\<lparr>msg_id = 7, room = Some ''r1'', msg_author = Some alice,
                              msg_text = Some ''hi'', msg_createdAt = Some 100\<rparr>]\<rparr>,
      [Emit_chat_message ''r1''
         \<lparr>msg_id = 7, room = Some ''r1'', msg_author = Some alice,
          msg_text = Some ''hi'', msg_createdAt = Some 100\<rparr>])"
proof -
  have "\<not> array_includes allowedOrigins (Some ''https://evil.example'')"
    by (simp add: allowedOrigins_def)
  moreover have "app env0 (Some ''https://evil.example'') (PUT_join 1) (state1 (Fin 5)) =
     (state1 (Fin 5), [], Next_error ''Not allowed by CORS'')"
    by (simp add: corsOptions_origin_cases app_def)
  moreover have "io_cors_header (Some ''https://evil.example'') = None"
    by (simp add: io_cors_header_def allowedOrigins_def)
  moreover have
    "io_connection env0 (Some ''https://evil.example'') ''s1'' (Join_room (Some ''r1'')) state0 =
     (socket_join ''s1'' ''r1'' state0,
      [Console_log_joined ''s1'' ''r1'', Emit_load_messages ''s1'' []])"
    by (simp add: join_room_def Message_find_room_def socket_join_def env0_def state0_def
        Let_def)
  moreover have
    "io_connection env0 (Some ''https://evil.example'') ''s1'' (Chat_message (Some payload0)) state0 =
     (state0\<lparr>messages := [\<lparr>msg_id = 7, room = Some ''r1'', msg_author = Some alice,
                              msg_text = Some ''hi'', msg_createdAt = Some 100\<rparr>]\<rparr>,
      [Emit_chat_message ''r1''
         \<lparr>msg_id = 7, room = Some ''r1'', msg_author = Some alice,
          msg_text = Some ''hi'', msg_createdAt = Some 100\<rparr>])"
    by (simp add: chat_message_def Message_save_def new_Message_def payload0_def env0_def
        state0_def Let_def)
  ultimately show ?thesis by blast
qed

section \<open>Joins in flight together\<close>

lemma run_one_request:
  "run e [0, 0] ([Requested i], st, []) =
     (case join_game e i st of (st', evs, res) \<Rightarrow> ([Responded res], st', evs))"
  by (simp add: join_game_def split: prod.splits)

text \<open>
  Claim C2, at a game with 5 of 6 players and two join requests in flight together. Both
  lookups are answered before either handler continues; each handler then sees 5 players,
  passes the capacity check and saves 6. Both requests succeed and both broadcast, where
  \<open>maxPlayers - players\<close> left room for one.
\<close>

theorem racing_joins_both_succeed:
  "run env0 [0, 1, 0, 1] ([Requested 1, Requested 1], state1 (Fin 5), []) =
     ([Responded (Json (game0 (Fin 6))), Responded (Json (game0 (Fin 6)))], state1 (Fin 6),
      [Emit_update_game (game0 (Fin 6)), Emit_update_game (game0 (Fin 6))]) \<and>
   length (filter succeeded [Responded (Json (game0 (Fin 6))), Responded (Json (game0 (Fin 6)))]) = 2 \<and>
   maxPlayers (game0 (Fin 5)) = Fin 6 \<and> players (game0 (Fin 5)) = Fin 5"
  by (simp add: join_continue_def Game_findById_def Game_save_def findById_def env0_def
      state1_def game0_def Let_def plus_one_five del: plus_one.simps)

section \<open>Who changes a game\<close>














section \<open>Joins one after another, and the capacity invariant\<close>

text \<open>
  Handled one after another, joins of a game with whole counts \<open>p\<close> of \<open>m\<close> succeed at most
  \<open>m - p\<close> times.
\<close>

lemma sequential_joins_bounded:
  "findById i (games st) = Some g \<Longrightarrow> players g = Fin (of_int p) \<Longrightarrow>
   maxPlayers g = Fin (of_int m) \<Longrightarrow> \<bar>p\<bar> < 2 ^ 53 \<Longrightarrow> \<bar>m\<bar> < 2 ^ 53 \<Longrightarrow>
   int (length (filter is_Json (fst (join_many e i n st)))) \<le> max 0 (m - p)"
proof (induction n arbitrary: st g p)
  case 0
  then show ?case by simp
next
  case (Suc n)
  obtain st1 evs res where j: "join_game e i st = (st1, evs, res)"
    by (cases "join_game e i st") auto
  obtain rs st2 where m: "join_many e i n st1 = (rs, st2)"
    by (cases "join_many e i n st1") auto
  from join_game_result [OF j] show ?case
  proof
    assume a: "st1 = st \<and> evs = [] \<and>
      (res = Status 500 ''Error joining game'' \<or> res = Status 404 ''Game not found'' \<or>
       res = Status 400 ''Game is full'')"
    then have "\<not> is_Json res" by auto
    moreover from a Suc.IH [OF Suc.prems] m
    have "int (length (filter is_Json rs)) \<le> max 0 (m - p)" by simp
    ultimately show ?thesis using j m by simp
  next
    assume "\<exists>g. \<not> find_fails e \<and> \<not> save_fails e \<and> findById i (games st) = Some g \<and>
        \<not> ge (players g) (maxPlayers g) \<and>
        evs = [Emit_update_game (g\<lparr>players := plus_one (players g)\<rparr>)] \<and>
        res = Json (g\<lparr>players := plus_one (players g)\<rparr>) \<and>
        findById i (games st1) = Some (g\<lparr>players := plus_one (players g)\<rparr>)"
    with Suc.prems(1) have b: "\<not> ge (players g) (maxPlayers g)"
      "findById i (games st1) = Some (g\<lparr>players := plus_one (players g)\<rparr>)" by auto
    from b(1) Suc.prems(2,3) have pm: "p < m" by simp
    with Suc.prems(4,5) have bound: "\<bar>p + 1\<bar> < 2 ^ 53" by linarith
    from plus_one_exact [OF bound] Suc.prems(2)
    have eq: "plus_one (players g) = Fin (of_int (p + 1))" by simp
    have "int (length (filter is_Json rs)) \<le> max 0 (m - (p + 1))"
      using Suc.IH [OF b(2), of "p + 1"] m eq Suc.prems(3) bound Suc.prems(5) by simp
    with pm have "int (length (filter is_Json (res # rs))) \<le> max 0 (m - p)"
      by auto
    then show ?thesis using j m by simp
  qed
qed





end
